theory Spec2Isabelle
  imports Complex_Main "HOL-Library.Sublist"
begin

section \<open>Python values used by the tasks\<close>

text \<open>
  A Python \<open>str\<close> is a list of Unicode code points. The source's string literals are
  Chinese; the literals that the code compares against or returns as data are kept
  as their code points, the ones that are only displayed become constructors of the
  message types below.
\<close>

type_synonym pystr = "nat list"

text \<open>The exceptions (all subclasses of \<open>Exception\<close>) that the modelled calls can raise.\<close>

datatype exn = AttributeError | StopIteration | OSError | RuntimeError

text \<open>The values an inference call can hand back.\<close>

datatype pyval =
    PyNone
  | PyInt int
  | PyStr pystr
  | PyList "pyval list"
  | PyTuple "pyval list"
  | PyDict "(pystr \<times> pyval) list"

text \<open>\<open>str.isspace\<close> of one code point, and \<open>str.strip()\<close>.\<close>

definition py_isspace :: "nat \<Rightarrow> bool" where
  "py_isspace c \<longleftrightarrow>
     (9 \<le> c \<and> c \<le> 13) \<or> (28 \<le> c \<and> c \<le> 32) \<or> c = 133 \<or> c = 160 \<or> c = 5760 \<or>
     (8192 \<le> c \<and> c \<le> 8202) \<or> c = 8232 \<or> c = 8233 \<or> c = 8239 \<or> c = 8287 \<or> c = 12288"

definition strip :: "pystr \<Rightarrow> pystr" where
  "strip s = rev (dropWhile py_isspace (rev (dropWhile py_isspace s)))"

text \<open>The key \<open>"text"\<close> and the default of \<open>res[0][0].get("text", ...)\<close> (five CJK characters).\<close>

definition text_key :: pystr where
  "text_key = [116, 101, 120, 116]"

definition text_not_found :: pystr where
  "text_not_found = [26410, 25214, 21040, 25991, 26412]"

text \<open>
  \<open>isinstance(res, tuple) and len(res) > 0 and isinstance(res[0], list) and len(res[0]) > 0\<close>
\<close>

definition is_tuple :: "pyval \<Rightarrow> bool" where
  "is_tuple v = (case v of PyTuple _ \<Rightarrow> True | _ \<Rightarrow> False)"

definition is_list :: "pyval \<Rightarrow> bool" where
  "is_list v = (case v of PyList _ \<Rightarrow> True | _ \<Rightarrow> False)"

definition items :: "pyval \<Rightarrow> pyval list" where
  "items v = (case v of PyTuple xs \<Rightarrow> xs | PyList xs \<Rightarrow> xs | _ \<Rightarrow> [])"

definition shape_ok :: "pyval \<Rightarrow> bool" where
  "shape_ok res \<longleftrightarrow>
     is_tuple res \<and> length (items res) > 0 \<and>
     is_list (hd (items res)) \<and> length (items (hd (items res))) > 0"

text \<open>\<open>res[0][0]\<close>, read only where \<open>shape_ok\<close> holds.\<close>

definition first_entry :: "pyval \<Rightarrow> pyval" where
  "first_entry res = hd (items (hd (items res)))"

text \<open>\<open>v.get(k, d)\<close>: only a dict has the method.\<close>

fun py_get :: "pyval \<Rightarrow> pystr \<Rightarrow> pyval \<Rightarrow> exn + pyval" where
  "py_get (PyDict kvs) k d = Inr (case map_of kvs k of None \<Rightarrow> d | Some v \<Rightarrow> v)"
| "py_get _ k d = Inl AttributeError"

text \<open>\<open>v.strip()\<close>: only a string has the method.\<close>

fun py_strip :: "pyval \<Rightarrow> exn + pystr" where
  "py_strip (PyStr s) = Inr (strip s)"
| "py_strip _ = Inl AttributeError"

section \<open>Progress events\<close>

text \<open>
  The labels of the progress events: one constructor for each literal of the source,
  \<open>Reported\<close> for a string handed in by the model's own callback.
\<close>

datatype label =
    CheckingPath | LoadingModel | CleaningMemory | Complete | PreparingAudio
  | Reported pystr

record pevent =
  stage :: label
  pvalue :: int
  ptotal :: int

section \<open>The model object\<close>

text \<open>
  A sub-module of the model, as far as \<open>_recursive_delete\<close> looks at it: an object that is
  no \<open>torch.nn.Module\<close>, or a module with its tables \<open>_modules\<close>, \<open>_parameters\<close> and
  \<open>_buffers\<close> in the order of the dict (an entry may hold \<open>None\<close>). The source raises nowhere
  itself; \<open>unreadable\<close> names the table of this node whose access raises \<open>AttributeError\<close>,
  if one does, so that the \<open>except\<close> branch of the walk has an input.
\<close>

datatype tensor = Tensor

datatype table = Modules | Parameters | Buffers

datatype module =
    Object
  | Module (unreadable: "table option")
           (modules: "(string \<times> module option) list")
           (parameters: "(string \<times> tensor option) list")
           (buffers: "(string \<times> tensor option) list")

text \<open>
  The model object. An attribute that \<open>hasattr\<close> does not find is \<open>None\<close>, one that holds
  Python's \<open>None\<close> is \<open>Some None\<close>. \<open>first_param_cuda\<close> is
  \<open>next(self.model.parameters()).is_cuda\<close>, \<open>None\<close> when there is no parameter
  (\<open>StopIteration\<close>); \<open>to_cpu_error\<close> is what \<open>self.model.to('cpu')\<close> raises, if it does.
\<close>

record handle =
  progress_api :: bool
  progress_callback :: bool
  training :: bool
  audio_encoder :: "module option option"
  audio_adaptor :: "module option option"
  llm :: "module option option"
  first_param_cuda :: "bool option"
  to_cpu_error :: "exn option"

datatype kwvalue = KwTensor tensor | KwValue pyval

type_synonym kwargs = "(pystr \<times> kwvalue) list"

datatype device = Cuda0 | Cpu

section \<open>Effects and messages\<close>

datatype t_message =
    AudioMissing pystr
  | CannotParse
  | TranscriptionError exn
  | Finished real
  | FinishedSaved real pystr
  | FinishedSaveFailed real exn

datatype w_message =
    DirMissing pystr
  | ModuleUnavailable
  | LoadSucceeded
  | LoadFailed exn

datatype warning = InvalidModelDir | CudaUnavailable | InvalidAudioFile | ModelNotLoaded

type_synonym path = "string list"

text \<open>
  What the program does that can be seen from outside, in the order in which it does it:
  the calls it makes on its collaborators, the signals it emits, the entries it removes.
\<close>

datatype effect =
    SetProgressCallback
  | EmitProgress pevent
  | IsFile pystr
  | Inference pystr
  | OpenForWrite pystr
  | EmitResult pystr bool t_message
  | IsDir pystr
  | FromPretrained pystr device
  | Eval
  | EmitFinished "(handle \<times> kwargs) option" bool w_message
  | GcCollect
  | EmptyCache
  | IpcCollect
  | UnloadBegin
  | ClearProgressCallback
  | MoveToCpu
  | SetAttrNone string
  | DropModel
  | CallDelete path
  | PopModule path string
  | PopParameter path string
  | PopBuffer path string
  | ReturnDelete path
  | DeleteFailed path exn
  | ClearKwargs
  | UnloadDone
  | UnloadFailed exn
  | ShowWarning warning
  | ShowCritical w_message
  | StartWorker pystr device
  | StartTranscription pystr "pystr option"
  | InstallModel

section \<open>TranscriptionThread\<close>

text \<open>
  The fields of the thread and what its surroundings answer during one run:
  whether the model object has \<open>set_progress_callback\<close>, the answer of
  \<open>os.path.isfile\<close>, the callbacks the model makes during \<open>inference\<close> and what the call
  returns or raises, whether writing the report raises, and the two readings of the clock.
\<close>

record t_run =
  has_progress_api :: bool
  audio_path :: pystr
  output_path :: "pystr option"
  is_file :: bool
  model_events :: "pevent list"
  inference_result :: "exn + pyval"
  write_error :: "exn option"
  start_time :: real
  end_time :: real

text \<open>\<open>if self.output_path:\<close> holds for a string that is not empty.\<close>

definition truthy_path :: "pystr option \<Rightarrow> bool" where
  "truthy_path p = (case p of None \<Rightarrow> False | Some s \<Rightarrow> s \<noteq> [])"

text \<open>The branch of \<open>run\<close> after the result has passed the shape test.\<close>

definition report :: "t_run \<Rightarrow> pystr \<Rightarrow> effect list" where
  "report r text =
     (let elapsed = end_time r - start_time r in
      if truthy_path (output_path r) then
        OpenForWrite (the (output_path r)) #
        (case write_error r of
           None \<Rightarrow> [EmitResult text True (FinishedSaved elapsed (the (output_path r)))]
         | Some e \<Rightarrow> [EmitResult text True (FinishedSaveFailed elapsed e)])
      else [EmitResult text True (Finished elapsed)])"

definition parse_and_report :: "t_run \<Rightarrow> pyval \<Rightarrow> effect list" where
  "parse_and_report r res =
     (if shape_ok res then
        (case py_get (first_entry res) text_key (PyStr text_not_found) of
           Inl e \<Rightarrow> [EmitResult [] False (TranscriptionError e)]
         | Inr t \<Rightarrow>
            (case py_strip t of
               Inl e \<Rightarrow> [EmitResult [] False (TranscriptionError e)]
             | Inr text \<Rightarrow> report r text))
      else [EmitResult [] False CannotParse])"

text \<open>\<open>TranscriptionThread.run\<close>; every \<open>Inl\<close> is caught by the \<open>except\<close> of the method.\<close>

definition transcription_run :: "t_run \<Rightarrow> effect list" where
  "transcription_run r =
     (if \<not> has_progress_api r then [EmitResult [] False (TranscriptionError AttributeError)]
      else
        SetProgressCallback #
        EmitProgress \<lparr>stage = PreparingAudio, pvalue = 5, ptotal = 100\<rparr> #
        IsFile (audio_path r) #
        (if \<not> is_file r then [EmitResult [] False (AudioMissing (audio_path r))]
         else
           Inference (audio_path r) #
           map EmitProgress (model_events r) @
           (case inference_result r of
              Inl e \<Rightarrow> [EmitResult [] False (TranscriptionError e)]
            | Inr res \<Rightarrow> parse_and_report r res)))"

section \<open>WorkerThread\<close>

text \<open>
  The fields of the loading thread and what its surroundings answer during one run:
  \<open>model_dir\<close> is the path after \<open>os.path.abspath\<close>, \<open>is_dir\<close> the answer of
  \<open>os.path.isdir\<close>, \<open>model_available\<close> the global \<open>MODEL_AVAILABLE\<close>, \<open>pretrained\<close> what
  \<open>FunASRNano.from_pretrained\<close> returns or raises, \<open>w_cuda\<close> the answer of
  \<open>torch.cuda.is_available()\<close>.
\<close>

record w_run =
  model_dir :: pystr
  device :: device
  is_dir :: bool
  model_available :: bool
  pretrained :: "exn + handle \<times> kwargs"
  w_cuda :: bool

text \<open>\<open>WorkerThread.run\<close>\<close>

definition worker_run :: "w_run \<Rightarrow> effect list" where
  "worker_run r =
     EmitProgress \<lparr>stage = CheckingPath, pvalue = 10, ptotal = 100\<rparr> #
     IsDir (model_dir r) #
     (if \<not> is_dir r then [EmitFinished None False (DirMissing (model_dir r))]
      else
        EmitProgress \<lparr>stage = LoadingModel, pvalue = 30, ptotal = 100\<rparr> #
        (if \<not> model_available r then [EmitFinished None False ModuleUnavailable]
         else
           FromPretrained (model_dir r) (device r) #
           (case pretrained r of
              Inl e \<Rightarrow> [EmitFinished None False (LoadFailed e)]
            | Inr (m, kwargs) \<Rightarrow>
                [Eval,
                 EmitProgress \<lparr>stage = CleaningMemory, pvalue = 95, ptotal = 100\<rparr>,
                 GcCollect] @
                (if w_cuda r then [EmptyCache, IpcCollect] else []) @
                [EmitProgress \<lparr>stage = Complete, pvalue = 100, ptotal = 100\<rparr>,
                 EmitFinished (Some (m\<lparr>training := False\<rparr>, kwargs)) True LoadSucceeded])))"

section \<open>Teardown\<close>

text \<open>
  \<open>MainWindow._recursive_delete\<close>, called on the object found at \<open>p\<close> (the attribute of the
  model, then the keys of \<open>_modules\<close> on the way down). The loop over \<open>children_names\<close> is
  \<open>delete_children\<close>. An exception ends the call in which it is raised, in its \<open>except\<close>.
\<close>

definition release_parameters :: "path \<Rightarrow> (string \<times> tensor option) list \<Rightarrow> effect list" where
  "release_parameters p ps = map (\<lambda>(name, param). PopParameter p name) (filter (\<lambda>(name, param). param \<noteq> None) ps)"

definition release_buffers :: "path \<Rightarrow> (string \<times> tensor option) list \<Rightarrow> effect list" where
  "release_buffers p bs = map (\<lambda>(name, buffer). PopBuffer p name) (filter (\<lambda>(name, buffer). buffer \<noteq> None) bs)"

fun recursive_delete :: "path \<Rightarrow> module option \<Rightarrow> effect list"
  and delete_children :: "path \<Rightarrow> (string \<times> module option) list \<Rightarrow> effect list" where
  "recursive_delete p None = []"
| "recursive_delete p (Some Object) = [CallDelete p, ReturnDelete p]"
| "recursive_delete p (Some (Module f cs ps bs)) =
     CallDelete p #
     (if f = Some Modules then [DeleteFailed p AttributeError]
      else
        delete_children p cs @
        (if f = Some Parameters then [DeleteFailed p AttributeError]
         else
           release_parameters p ps @
           (if f = Some Buffers then [DeleteFailed p AttributeError]
            else release_buffers p bs @ [ReturnDelete p])))"
| "delete_children p [] = []"
| "delete_children p ((name, None) # cs) = delete_children p cs"
| "delete_children p ((name, Some child) # cs) =
     recursive_delete (p @ [name]) (Some child) @ PopModule p name # delete_children p cs"

section \<open>MainWindow and its pages\<close>

text \<open>
  The fields of the main window that the lifecycle reads and writes, the two buttons of
  its pages, and the threads that have been started and have not delivered their result.
\<close>

record window =
  model :: "handle option"
  model_kwargs :: "kwargs option"
  current_model_name :: pystr
  load_btn_enabled :: bool
  transcribe_btn_enabled :: bool
  load_workers :: nat
  transcription_workers :: nat

text \<open>The attributes of the model that \<open>unload_model\<close> looks for, in its order.\<close>

definition submodules :: "handle \<Rightarrow> (string \<times> module option) list" where
  "submodules h =
     (case audio_encoder h of None \<Rightarrow> [] | Some m \<Rightarrow> [(''audio_encoder'', m)]) @
     (case audio_adaptor h of None \<Rightarrow> [] | Some m \<Rightarrow> [(''audio_adaptor'', m)]) @
     (case llm h of None \<Rightarrow> [] | Some m \<Rightarrow> [(''llm'', m)])"

text \<open>Steps 8 to 10 of \<open>unload_model\<close>.\<close>

definition collect_garbage :: "bool \<Rightarrow> effect list" where
  "collect_garbage cuda = GcCollect # (if cuda then [EmptyCache, IpcCollect] else []) @ [GcCollect]"

text \<open>
  \<open>MainWindow.unload_model\<close>; \<open>cuda\<close> is the answer of \<open>torch.cuda.is_available()\<close>. The
  two steps that can raise are reading the first parameter and moving the model; the
  \<open>except\<close> of the method ends the call there, with what has been done so far.
\<close>

definition unload_model :: "bool \<Rightarrow> window \<Rightarrow> window \<times> effect list" where
  "unload_model cuda w =
     (case model w of
        None \<Rightarrow> (w, [])
      | Some h0 \<Rightarrow>
         let h = (if progress_api h0 then h0\<lparr>progress_callback := False\<rparr> else h0);
             step1 = UnloadBegin # (if progress_api h0 then [ClearProgressCallback] else [])
         in
         (case first_param_cuda h of
            None \<Rightarrow> (w\<lparr>model := Some h\<rparr>, step1 @ [UnloadFailed StopIteration])
          | Some on_cuda \<Rightarrow>
             if on_cuda \<and> to_cpu_error h \<noteq> None
             then (w\<lparr>model := Some h\<rparr>, step1 @ [MoveToCpu, UnloadFailed (the (to_cpu_error h))])
             else
               (w\<lparr>model := None, model_kwargs := None, current_model_name := [],
                  transcribe_btn_enabled := False\<rparr>,
                step1 @
                (if on_cuda then [MoveToCpu] else []) @
                map (\<lambda>(name, m). SetAttrNone name) (submodules h) @
                [DropModel] @
                concat (map (\<lambda>(name, m). recursive_delete [name] m) (submodules h)) @
                (if model_kwargs w \<noteq> None then [ClearKwargs] else []) @
                collect_garbage cuda @
                [UnloadDone])))"

text \<open>\<open>TranscriptionPage.update_model_status\<close>, as far as the button goes.\<close>

definition update_model_status :: "pystr \<Rightarrow> window \<Rightarrow> window" where
  "update_model_status model_name w = w\<lparr>transcribe_btn_enabled := (model_name \<noteq> [])\<rparr>"

text \<open>\<open>MainWindow.switch_to_transcription_page\<close>\<close>

definition switch_to_transcription_page :: "window \<Rightarrow> window" where
  "switch_to_transcription_page w = update_model_status (current_model_name w) w"

text \<open>
  \<open>ModelLoadPage.load_model\<close>. The device combo box has three entries, none editable.
  \<open>no_model_dir\<close> is the text of the path label before a directory is chosen.
\<close>

datatype device_choice = AutoChoice | CpuChoice | GpuChoice

definition no_model_dir :: pystr where
  "no_model_dir = [26410, 36873, 25321, 27169, 22411, 30446, 24405]"

record load_request =
  path_label :: pystr
  dir_exists :: bool
  device_combo :: device_choice

definition load_model :: "bool \<Rightarrow> load_request \<Rightarrow> window \<Rightarrow> window \<times> effect list" where
  "load_model cuda req w =
     (if path_label req = no_model_dir \<or> \<not> dir_exists req then (w, [ShowWarning InvalidModelDir])
      else if device_combo req = GpuChoice \<and> \<not> cuda then (w, [ShowWarning CudaUnavailable])
      else
        let dev = (case device_combo req of
                     AutoChoice \<Rightarrow> if cuda then Cuda0 else Cpu
                   | GpuChoice \<Rightarrow> Cuda0
                   | CpuChoice \<Rightarrow> Cpu);
            (w1, unloading) = (if model w \<noteq> None then unload_model cuda w else (w, []))
        in (w1\<lparr>load_btn_enabled := False, load_workers := load_workers w1 + 1\<rparr>,
            unloading @ [StartWorker (path_label req) dev]))"

text \<open>
  \<open>MainWindow.on_model_loaded\<close>; \<open>name\<close> is \<open>os.path.basename(model_dir)\<close>. A model
  object is true in \<open>if model:\<close>.
\<close>

definition on_model_loaded ::
  "bool \<Rightarrow> handle option \<Rightarrow> kwargs option \<Rightarrow> pystr \<Rightarrow> window \<Rightarrow> window \<times> effect list" where
  "on_model_loaded cuda m kwargs name w =
     (let (w1, unloading) = (if model w \<noteq> None then unload_model cuda w else (w, []));
          w2 = w1\<lparr>model := m, model_kwargs := kwargs, current_model_name := name\<rparr>
      in if m \<noteq> None
         then (switch_to_transcription_page (update_model_status name w2),
               unloading @ [InstallModel, GcCollect] @ (if cuda then [EmptyCache] else []))
         else (w2, unloading @ [InstallModel]))"

text \<open>
  \<open>ModelLoadPage.model_loaded_callback\<close>, the slot of \<open>finished_signal\<close>; \<open>name\<close> is the
  base name of the text that the path label holds when the signal arrives.
\<close>

definition model_loaded_callback ::
  "bool \<Rightarrow> (handle \<times> kwargs) option \<Rightarrow> bool \<Rightarrow> w_message \<Rightarrow> pystr \<Rightarrow> window \<Rightarrow> window \<times> effect list" where
  "model_loaded_callback cuda loaded success message name w =
     (let w1 = w\<lparr>load_btn_enabled := True\<rparr>
      in if success
         then (let (w2, es) = on_model_loaded cuda (map_option fst loaded) (map_option snd loaded) name w1
               in (switch_to_transcription_page w2, es))
         else (w1, [ShowCritical message]))"

text \<open>
  \<open>TranscriptionPage.start_transcription\<close>; \<open>no_audio_file\<close> and \<open>no_output_file\<close> are the
  texts of the two labels before a file is chosen.
\<close>

definition no_audio_file :: pystr where
  "no_audio_file = [26410, 36873, 25321, 38899, 39057, 25991, 20214]"

definition no_output_file :: pystr where
  "no_output_file = [26410, 36873, 25321, 36755, 20986, 25991, 20214]"

record transcription_request =
  audio_label :: pystr
  audio_exists :: bool
  output_label :: pystr

definition start_transcription :: "transcription_request \<Rightarrow> window \<Rightarrow> window \<times> effect list" where
  "start_transcription req w =
     (if audio_label req = no_audio_file \<or> \<not> audio_exists req then (w, [ShowWarning InvalidAudioFile])
      else if model w = None then (w, [ShowWarning ModelNotLoaded])
      else
        (w\<lparr>transcribe_btn_enabled := False, transcription_workers := transcription_workers w + 1\<rparr>,
         [StartTranscription (audio_label req)
            (if output_label req = no_output_file then None else Some (output_label req))]))"

text \<open>\<open>TranscriptionPage.transcription_finished\<close>, the slot of \<open>result_signal\<close>.\<close>

definition transcription_finished :: "bool \<Rightarrow> bool \<Rightarrow> window \<Rightarrow> window \<times> effect list" where
  "transcription_finished cuda success w =
     (w\<lparr>transcribe_btn_enabled := True\<rparr>,
      if success then GcCollect # (if cuda then [EmptyCache] else []) else [])"

section \<open>The window as a state machine\<close>

text \<open>
  What can happen to the window: a click on one of the two buttons (a disabled button
  does not emit \<open>clicked\<close>), the result of a running thread arriving at its slot, and a
  click on one of the two navigation buttons. Closing the window unloads the model and
  ends the program; it is not among the events.
\<close>

datatype gui_event =
    ClickLoad load_request
  | LoadFinished "(handle \<times> kwargs) option" bool w_message pystr
  | ClickTranscribe transcription_request
  | TranscriptionFinished bool
  | ShowModelPage
  | ShowTranscriptionPage

definition step :: "bool \<Rightarrow> window \<Rightarrow> gui_event \<Rightarrow> window" where
  "step cuda w ev =
     (case ev of
        ClickLoad req \<Rightarrow> if load_btn_enabled w then fst (load_model cuda req w) else w
      | LoadFinished loaded success message name \<Rightarrow>
          if load_workers w > 0
          then fst (model_loaded_callback cuda loaded success message name
                      (w\<lparr>load_workers := load_workers w - 1\<rparr>))
          else w
      | ClickTranscribe req \<Rightarrow> if transcribe_btn_enabled w then fst (start_transcription req w) else w
      | TranscriptionFinished success \<Rightarrow>
          if transcription_workers w > 0
          then fst (transcription_finished cuda success
                      (w\<lparr>transcription_workers := transcription_workers w - 1\<rparr>))
          else w
      | ShowModelPage \<Rightarrow> w
      | ShowTranscriptionPage \<Rightarrow> switch_to_transcription_page w)"

text \<open>\<open>MainWindow.__init__\<close>: no model, both buttons as Qt creates them.\<close>

definition initial :: window where
  "initial = \<lparr>model = None, model_kwargs = None, current_model_name = [],
     load_btn_enabled = True, transcribe_btn_enabled = True,
     load_workers = 0, transcription_workers = 0\<rparr>"

definition run :: "bool \<Rightarrow> gui_event list \<Rightarrow> window" where
  "run cuda evs = foldl (step cuda) initial evs"

section \<open>Notions the properties are stated with\<close>

text \<open>The results and the progress events among the effects of a run.\<close>

definition results :: "effect list \<Rightarrow> (pystr \<times> bool \<times> t_message) list" where
  "results es = concat (map (\<lambda>e. case e of EmitResult t ok m \<Rightarrow> [(t, ok, m)] | _ \<Rightarrow> []) es)"

definition outcome :: "effect list \<Rightarrow> (pystr \<times> bool) list" where
  "outcome es = map (\<lambda>(t, ok, m). (t, ok)) (results es)"

definition progress :: "effect list \<Rightarrow> pevent list" where
  "progress es = concat (map (\<lambda>e. case e of EmitProgress p \<Rightarrow> [p] | _ \<Rightarrow> []) es)"

text \<open>\<open>precedes a b xs\<close>: \<open>b\<close> occurs in \<open>xs\<close>, and \<open>a\<close> occurs before the first \<open>b\<close>.\<close>

definition precedes :: "'a \<Rightarrow> 'a \<Rightarrow> 'a list \<Rightarrow> bool" where
  "precedes a b xs \<longleftrightarrow> b \<in> set xs \<and> a \<in> set (takeWhile (\<lambda>x. x \<noteq> b) xs)"

text \<open>The threads that a handler starts, and whether a loading run ends in success.\<close>

definition started :: "effect list \<Rightarrow> (pystr \<times> device) list" where
  "started es = concat (map (\<lambda>e. case e of StartWorker p d \<Rightarrow> [(p, d)] | _ \<Rightarrow> []) es)"

definition load_succeeded :: "effect list \<Rightarrow> bool" where
  "load_succeeded es = list_ex (\<lambda>e. case e of EmitFinished l ok m \<Rightarrow> ok | _ \<Rightarrow> False) es"

text \<open>
  The shape that the specification asks of an inference result: a non-empty structured
  list whose first element exposes a text field.
\<close>

definition spec_result_shape :: "pyval \<Rightarrow> bool" where
  "spec_result_shape res \<longleftrightarrow>
     shape_ok res \<and>
     (case first_entry res of PyDict d \<Rightarrow> map_of d text_key \<noteq> None | _ \<Rightarrow> False)"

text \<open>The two top-level steps of \<open>unload_model\<close> that raise: when one of them does.\<close>

definition unload_raises :: "handle \<Rightarrow> bool" where
  "unload_raises h \<longleftrightarrow>
     first_param_cuda h = None \<or> (first_param_cuda h = Some True \<and> to_cpu_error h \<noteq> None)"

text \<open>
  The node of the tree that an effect of the walk is about: the node that is entered,
  left or given up, whose parameter or buffer is removed, or that is removed from its
  parent's table.
\<close>

definition node_of :: "effect \<Rightarrow> path option" where
  "node_of e =
     (case e of
        CallDelete p \<Rightarrow> Some p
      | PopModule p name \<Rightarrow> Some (p @ [name])
      | PopParameter p name \<Rightarrow> Some p
      | PopBuffer p name \<Rightarrow> Some p
      | ReturnDelete p \<Rightarrow> Some p
      | DeleteFailed p x \<Rightarrow> Some p
      | _ \<Rightarrow> None)"




section \<open>Concrete inputs\<close>

text \<open>
  A model with a two-level encoder, an adaptor that is no module, and an \<open>llm\<close>
  attribute holding \<open>None\<close>; the same model on the accelerator with a migration that fails;
  the same model with an encoder whose parameter table cannot be read.
\<close>

definition conv :: module where
  "conv = Module None [] [(''weight'', Some Tensor), (''bias'', None)] []"

definition encoder :: module where
  "encoder = Module None [(''conv'', Some conv), (''skip'', None)] [] [(''mean'', Some Tensor)]"

definition small_model :: handle where
  "small_model = \<lparr>progress_api = True, progress_callback = True, training = False,
     audio_encoder = Some (Some encoder), audio_adaptor = Some (Some Object), llm = Some None,
     first_param_cuda = Some False, to_cpu_error = None\<rparr>"

definition stuck_model :: handle where
  "stuck_model = small_model\<lparr>first_param_cuda := Some True, to_cpu_error := Some RuntimeError\<rparr>"

definition broken_model :: handle where
  "broken_model = small_model\<lparr>audio_encoder :=
     Some (Some (Module (Some Parameters) [(''conv'', Some conv)] [(''scale'', Some Tensor)] []))\<rparr>"

text \<open>A window holding a model named \<open>m\<close>, as \<open>on_model_loaded\<close> leaves it.\<close>

definition ready :: "handle \<Rightarrow> window" where
  "ready h = \<lparr>model = Some h, model_kwargs = Some [], current_model_name = [109],
     load_btn_enabled = True, transcribe_btn_enabled = True,
     load_workers = 0, transcription_workers = 0\<rparr>"

text \<open>Requests with a chosen directory \<open>d\<close> and a chosen audio file \<open>a\<close>, both existing.\<close>

definition good_load :: "device_choice \<Rightarrow> load_request" where
  "good_load c = \<lparr>path_label = [100], dir_exists = True, device_combo = c\<rparr>"


text \<open>
  Runs of the transcription thread on the file \<open>a\<close>: the model reports no progress and
  returns the given value; the output path \<open>o\<close> is given when \<open>out\<close> holds, and writing to
  it fails.
\<close>

definition quiet_run :: "bool \<Rightarrow> bool \<Rightarrow> pyval \<Rightarrow> t_run" where
  "quiet_run exists out res = \<lparr>has_progress_api = True, audio_path = [97],
     output_path = (if out then Some [111] else None), is_file = exists,
     model_events = [], inference_result = Inr res,
     write_error = Some OSError, start_time = 0, end_time = 2\<rparr>"

text \<open>A result holding the text \<open>" hi"\<close>, one whose entry has no text, one whose entry is a number.\<close>

definition text_result :: pyval where
  "text_result = PyTuple [PyList [PyDict [(text_key, PyStr [32, 104, 105])]], PyNone]"

definition no_text_result :: pyval where
  "no_text_result = PyTuple [PyList [PyDict []], PyNone]"

definition number_result :: pyval where
  "number_result = PyTuple [PyList [PyInt 0], PyNone]"

text \<open>A loading run on the directory \<open>d\<close> that succeeds.\<close>

definition good_worker :: w_run where
  "good_worker = \<lparr>model_dir = [100], device = Cpu, is_dir = True, model_available = True,
     pretrained = Inr (small_model, []), w_cuda = False\<rparr>"


section \<open>Properties of the two threads\<close>

subsection \<open>Projections\<close>

lemma results_simps:
  "results [] = []"
  "results (EmitResult t ok m # es) = (t, ok, m) # results es"
  "results (SetProgressCallback # es) = results es"
  "results (EmitProgress pe # es) = results es"
  "results (IsFile p # es) = results es"
  "results (Inference p # es) = results es"
  "results (OpenForWrite p # es) = results es"
  "results (xs @ ys) = results xs @ results ys"
  "results (map EmitProgress ps) = []"
  by (simp_all add: results_def)

lemma progress_simps:
  "progress [] = []"
  "progress (EmitProgress pe # es) = pe # progress es"
  "progress (EmitResult t ok m # es) = progress es"
  "progress (SetProgressCallback # es) = progress es"
  "progress (IsFile p # es) = progress es"
  "progress (Inference p # es) = progress es"
  "progress (OpenForWrite p # es) = progress es"
  "progress (IsDir p # es) = progress es"
  "progress (FromPretrained p d # es) = progress es"
  "progress (Eval # es) = progress es"
  "progress (GcCollect # es) = progress es"
  "progress (EmptyCache # es) = progress es"
  "progress (IpcCollect # es) = progress es"
  "progress (EmitFinished l ok wm # es) = progress es"
  "progress (xs @ ys) = progress xs @ progress ys"
  "progress (map EmitProgress ps) = ps"
  by (simp_all add: progress_def) (induction ps, simp_all)

lemma results_report:
  "results (report r text) =
     [(text, True,
       if truthy_path (output_path r)
       then (case write_error r of
               None \<Rightarrow> FinishedSaved (end_time r - start_time r) (the (output_path r))
             | Some e \<Rightarrow> FinishedSaveFailed (end_time r - start_time r) e)
       else Finished (end_time r - start_time r))]"
  by (simp add: report_def Let_def results_simps split: option.splits)

lemma progress_report: "progress (report r text) = []"
  by (simp add: report_def Let_def progress_simps split: option.splits)

lemma progress_parse: "progress (parse_and_report r res) = []"
  by (simp add: parse_and_report_def progress_report progress_simps split: sum.splits)

lemma results_run:
  "has_progress_api r \<Longrightarrow> is_file r \<Longrightarrow> inference_result r = Inr res \<Longrightarrow>
   results (transcription_run r) = results (parse_and_report r res)"
  by (simp add: transcription_run_def results_simps)

lemma strip_not_found: "strip text_not_found = text_not_found"
  by (simp add: strip_def text_not_found_def py_isspace_def)

lemma shape_ok_examples:
  "shape_ok text_result" "shape_ok no_text_result" "shape_ok number_result"
  "first_entry text_result = PyDict [(text_key, PyStr [32, 104, 105])]"
  "first_entry no_text_result = PyDict []"
  "first_entry number_result = PyInt 0"
  by (simp_all add: shape_ok_def first_entry_def text_result_def no_text_result_def number_result_def
      is_tuple_def is_list_def items_def)

lemma not_shape_ok_list: "\<not> shape_ok (PyList xs)"
  by (simp add: shape_ok_def is_tuple_def)

lemma strip_hi: "strip [32, 104, 105] = [104, 105]"
  by (simp add: strip_def py_isspace_def)

lemma quiet_run_simps:
  "has_progress_api (quiet_run ex out res)" "is_file (quiet_run ex out res) = ex"
  "inference_result (quiet_run ex out res) = Inr res" "audio_path (quiet_run ex out res) = [97]"
  "output_path (quiet_run ex out res) = (if out then Some [111] else None)"
  "write_error (quiet_run ex out res) = Some OSError" "model_events (quiet_run ex out res) = []"
  "start_time (quiet_run ex out res) = 0" "end_time (quiet_run ex out res) = 2"
  by (simp_all add: quiet_run_def)

subsection \<open>The report that cannot be written\<close>

text \<open>
  Claim C9. When a run has produced the recognized text and was given an output path,
  and writing the report raises, the run still emits exactly one result: success, with
  the recognized text, and the message that says that saving failed.
\<close>

theorem write_failure_keeps_success:
  assumes "has_progress_api r" "is_file r" "inference_result r = Inr res" "shape_ok res"
    and "py_get (first_entry res) text_key (PyStr text_not_found) = Inr t" "py_strip t = Inr text"
    and "truthy_path (output_path r)" "write_error r = Some e"
  shows "results (transcription_run r) =
           [(text, True, FinishedSaveFailed (end_time r - start_time r) e)]"
  using assms by (simp add: results_run parse_and_report_def results_report)

text \<open>The run on \<open>text_result\<close> with the output path \<open>o\<close>, where writing fails.\<close>

theorem write_failure_keeps_success_witness:
  "results (transcription_run (quiet_run True True text_result)) =
     [([104, 105], True, FinishedSaveFailed 2 OSError)]"
  using write_failure_keeps_success [of "quiet_run True True text_result" text_result
      "PyStr [32, 104, 105]" "[104, 105]" OSError]
  by (simp add: quiet_run_simps shape_ok_examples truthy_path_def strip_hi)

subsection \<open>An entry without text\<close>



subsection \<open>Parsing the result\<close>

text \<open>
  Claim C8, as stated, fails: \<open>no_text_result\<close> does not have the shape that the
  specification asks for (its first entry exposes no text field), and the run on it
  reports success, not the failure to parse.
\<close>

theorem unexposed_text_counterexample:
  "\<not> spec_result_shape no_text_result \<and>
   results (transcription_run (quiet_run True False no_text_result)) =
     [(text_not_found, True, Finished 2)]"
  by (simp add: spec_result_shape_def shape_ok_examples results_run quiet_run_simps
      parse_and_report_def results_report strip_not_found truthy_path_def)

text \<open>
  Claim C8, amended. A result is accepted exactly when it is a non-empty tuple whose
  first element is a non-empty list whose first entry is a record that holds a string
  under \<open>text\<close> or has no such key; in the second case the placeholder is the text. A
  result that fails the test of the container is answered by the failure to parse. A
  first entry that is no record, or whose text is no string, is answered by the failure
  that carries the exception.
\<close>

theorem result_parsing:
  assumes "has_progress_api r" "is_file r" "inference_result r = Inr res"
  shows "(\<not> shape_ok res \<longrightarrow> results (transcription_run r) = [([], False, CannotParse)]) \<and>
         (shape_ok res \<longrightarrow>
           (case first_entry res of
              PyDict d \<Rightarrow>
                (case map_of d text_key of
                   None \<Rightarrow> outcome (transcription_run r) = [(text_not_found, True)]
                 | Some (PyStr s) \<Rightarrow> outcome (transcription_run r) = [(strip s, True)]
                 | Some _ \<Rightarrow>
                     results (transcription_run r) = [([], False, TranscriptionError AttributeError)])
            | _ \<Rightarrow> results (transcription_run r) = [([], False, TranscriptionError AttributeError)]))"
  by (simp add: results_run [OF assms] outcome_def parse_and_report_def results_report
      results_simps strip_not_found split: pyval.split option.split)

text \<open>A list instead of a tuple, \<open>text_result\<close>, and \<open>number_result\<close>.\<close>

theorem result_parsing_witness:
  "results (transcription_run (quiet_run True False (PyList []))) = [([], False, CannotParse)] \<and>
   outcome (transcription_run (quiet_run True False text_result)) = [([104, 105], True)] \<and>
   results (transcription_run (quiet_run True False number_result)) =
     [([], False, TranscriptionError AttributeError)]"
  using result_parsing [of "quiet_run True False (PyList [])" "PyList []"]
    result_parsing [of "quiet_run True False text_result" text_result]
    result_parsing [of "quiet_run True False number_result" number_result]
  by (simp add: quiet_run_simps shape_ok_examples strip_hi not_shape_ok_list)

subsection \<open>Registration and validation\<close>

lemma precedes_Cons:
  "precedes a b (x # xs) \<longleftrightarrow> x \<noteq> b \<and> (x = a \<and> b \<in> set xs \<or> precedes a b xs)"
  by (cases "x = b") (simp_all add: precedes_def, blast)


text \<open>
  Claim C7, as stated, fails: on a missing file the run has registered the progress
  callback on the model, and no check of the file comes before the registration.
\<close>

theorem validation_first_counterexample:
  "results (transcription_run (quiet_run False False text_result)) = [([], False, AudioMissing [97])] \<and>
   SetProgressCallback \<in> set (transcription_run (quiet_run False False text_result)) \<and>
   \<not> precedes (IsFile [97]) SetProgressCallback (transcription_run (quiet_run False False text_result))"
  by (simp add: transcription_run_def quiet_run_simps results_simps precedes_Cons)

lemma inference_in_parse: "Inference p \<notin> set (parse_and_report r res)"
  by (simp add: parse_and_report_def report_def Let_def split: sum.splits option.splits)

text \<open>
  Claim C7, amended. The run first registers its progress callback on the model, then
  checks that the audio file exists; when it does not, the only result is the failure
  that names the missing file; inference is called only when the file exists, and after
  the check.
\<close>

theorem registration_then_validation:
  "(has_progress_api r \<longrightarrow>
      precedes SetProgressCallback (IsFile (audio_path r)) (transcription_run r)) \<and>
   (has_progress_api r \<and> \<not> is_file r \<longrightarrow>
      results (transcription_run r) = [([], False, AudioMissing (audio_path r))]) \<and>
   (Inference p \<in> set (transcription_run r) \<longrightarrow>
      is_file r \<and> precedes (IsFile (audio_path r)) (Inference p) (transcription_run r))"
  by (auto simp: transcription_run_def results_simps precedes_Cons inference_in_parse
      split: sum.splits if_splits)

text \<open>The run on a missing file and the run on an existing one.\<close>

theorem registration_then_validation_witness:
  "precedes SetProgressCallback (IsFile [97]) (transcription_run (quiet_run False False text_result)) \<and>
   results (transcription_run (quiet_run False False text_result)) = [([], False, AudioMissing [97])] \<and>
   Inference [97] \<in> set (transcription_run (quiet_run True False text_result)) \<and>
   precedes (IsFile [97]) (Inference [97]) (transcription_run (quiet_run True False text_result))"
  using registration_then_validation [of "quiet_run False False text_result" "[97]"]
    registration_then_validation [of "quiet_run True False text_result" "[97]"]
  by (simp add: quiet_run_simps) (simp add: transcription_run_def quiet_run_simps)

subsection \<open>Progress\<close>

text \<open>
  Claim C5, as stated, fails: a successful transcription whose model reports no
  progress emits one progress event, 5 of 100, so that its final event has not reached
  its total.
\<close>

theorem terminal_progress_counterexample:
  "outcome (transcription_run (quiet_run True False text_result)) = [([104, 105], True)] \<and>
   progress (transcription_run (quiet_run True False text_result)) =
     [\<lparr>stage = PreparingAudio, pvalue = 5, ptotal = 100\<rparr>] \<and>
   pvalue (last (progress (transcription_run (quiet_run True False text_result)))) \<noteq>
   ptotal (last (progress (transcription_run (quiet_run True False text_result))))"
proof -
  have "outcome (transcription_run (quiet_run True False text_result)) = [([104, 105], True)]"
    by (simp add: results_run quiet_run_simps outcome_def parse_and_report_def shape_ok_examples
        results_report strip_hi)
  moreover have "progress (transcription_run (quiet_run True False text_result)) =
     [\<lparr>stage = PreparingAudio, pvalue = 5, ptotal = 100\<rparr>]"
    by (simp add: transcription_run_def quiet_run_simps progress_simps progress_parse)
  ultimately show ?thesis by simp
qed

lemma worker_progress:
  "map pvalue (progress (worker_run r)) =
     (if \<not> is_dir r then [10]
      else if \<not> model_available r then [10, 30]
      else case pretrained r of Inl e \<Rightarrow> [10, 30] | Inr mk \<Rightarrow> [10, 30, 95, 100])"
  "map ptotal (progress (worker_run r)) = map (\<lambda>v. 100) (progress (worker_run r))"
  "load_succeeded (worker_run r) \<longleftrightarrow> is_dir r \<and> model_available r \<and> (\<exists>mk. pretrained r = Inr mk)"
  by (auto simp: worker_run_def progress_simps load_succeeded_def split: sum.splits prod.splits)

text \<open>
  Claim C5, amended. The progress values of every loading run are non-decreasing and at
  most their total, and a loading run that succeeds ends at its total. A transcription
  run emits 5 of 100 and then what the model reports, unchanged and with nothing added
  at the end; on a missing file it emits 5 of 100 only.
\<close>

theorem progress_of_tasks:
  "sorted (map pvalue (progress (worker_run w))) \<and>
   (\<forall>e \<in> set (progress (worker_run w)). 0 \<le> pvalue e \<and> pvalue e \<le> ptotal e) \<and>
   (load_succeeded (worker_run w) \<longrightarrow>
      pvalue (last (progress (worker_run w))) = ptotal (last (progress (worker_run w)))) \<and>
   (has_progress_api t \<and> is_file t \<longrightarrow>
      progress (transcription_run t) =
        \<lparr>stage = PreparingAudio, pvalue = 5, ptotal = 100\<rparr> # model_events t) \<and>
   (has_progress_api t \<and> \<not> is_file t \<longrightarrow>
      progress (transcription_run t) = [\<lparr>stage = PreparingAudio, pvalue = 5, ptotal = 100\<rparr>])"
proof -
  have a: "sorted (map pvalue (progress (worker_run w)))"
    by (simp add: worker_progress(1) split: sum.splits)
  have b: "\<forall>e \<in> set (progress (worker_run w)). 0 \<le> pvalue e \<and> pvalue e \<le> ptotal e"
    by (auto simp: worker_run_def progress_simps split: sum.splits prod.splits)
  have c: "load_succeeded (worker_run w) \<longrightarrow>
      pvalue (last (progress (worker_run w))) = ptotal (last (progress (worker_run w)))"
    by (auto simp: worker_run_def progress_simps load_succeeded_def split: sum.splits prod.splits)
  have d: "has_progress_api t \<and> is_file t \<longrightarrow>
      progress (transcription_run t) =
        \<lparr>stage = PreparingAudio, pvalue = 5, ptotal = 100\<rparr> # model_events t"
    by (simp add: transcription_run_def progress_simps progress_parse split: sum.splits)
  have e: "has_progress_api t \<and> \<not> is_file t \<longrightarrow>
      progress (transcription_run t) = [\<lparr>stage = PreparingAudio, pvalue = 5, ptotal = 100\<rparr>]"
    by (simp add: transcription_run_def progress_simps)
  from a b c d e show ?thesis by blast
qed

text \<open>The loading run \<open>good_worker\<close> and the transcription of a missing file.\<close>

theorem progress_of_tasks_witness:
  "load_succeeded (worker_run good_worker) \<and>
   map pvalue (progress (worker_run good_worker)) = [10, 30, 95, 100] \<and>
   pvalue (last (progress (worker_run good_worker))) = ptotal (last (progress (worker_run good_worker))) \<and>
   progress (transcription_run (quiet_run False False text_result)) =
     [\<lparr>stage = PreparingAudio, pvalue = 5, ptotal = 100\<rparr>]"
  using progress_of_tasks [of good_worker "quiet_run False False text_result"]
  by (simp add: quiet_run_simps worker_progress good_worker_def)

section \<open>Properties of the teardown\<close>

subsection \<open>Order in a list of effects\<close>



lemma precedes_append2: "b \<notin> set xs \<Longrightarrow> precedes a b (xs @ ys) \<longleftrightarrow> b \<in> set ys \<and> (a \<in> set xs \<or> precedes a b ys)"
  by (auto simp: precedes_def takeWhile_append)


lemma node_of_simps:
  "node_of (CallDelete p) = Some p"
  "node_of (PopModule p name) = Some (p @ [name])"
  "node_of (PopParameter p name) = Some p"
  "node_of (PopBuffer p name) = Some p"
  "node_of (ReturnDelete p) = Some p"
  "node_of (DeleteFailed p x) = Some p"
  by (simp_all add: node_of_def)

lemma walk_nodes:
  "e \<in> set (recursive_delete p m) \<Longrightarrow> \<exists>q. node_of e = Some q \<and> prefix p q"
  "e \<in> set (delete_children p cs) \<Longrightarrow> \<exists>q. node_of e = Some q \<and> strict_prefix p q"
proof (induction p m and p cs arbitrary: e and e rule: recursive_delete_delete_children.induct)
  case (1 p)
  then show ?case by simp
next
  case (2 p)
  then show ?case by (auto simp: node_of_simps)
next
  case (3 p f cs ps bs)
  have "\<exists>q. node_of e = Some q \<and> prefix p q" if "e \<in> set (delete_children p cs)" "f \<noteq> Some Modules"
    using "3.IH" [OF that(2) that(1)] by (auto simp: strict_prefix_def)
  with "3.prems" show ?case
    by (auto simp: node_of_simps release_parameters_def release_buffers_def split: if_splits)
next
  case (4 p)
  then show ?case by simp
next
  case (5 p name cs)
  then show ?case by simp
next
  case (6 p name child cs)
  from "6.prems" consider
    "e \<in> set (recursive_delete (p @ [name]) (Some child))" | "e = PopModule p name"
    | "e \<in> set (delete_children p cs)" by auto
  then show ?case
  proof cases
    case 1
    from "6.IH"(1) [OF this] obtain q where "node_of e = Some q" "prefix (p @ [name]) q" by blast
    then show ?thesis by (auto simp: strict_prefix_def prefix_def)
  next
    case 2
    then show ?thesis by (simp add: node_of_simps strict_prefix_def)
  next
    case 3
    then show ?thesis by (rule "6.IH"(2))
  qed
qed

lemma call_first: "CallDelete p \<in> set (recursive_delete p (Some m))"
  by (cases m) simp_all





subsection \<open>The effects of unloading\<close>

lemma unload_completes:
  assumes "model w = Some h" "\<not> unload_raises h"
  shows "unload_model cuda w =
    (w\<lparr>model := None, model_kwargs := None, current_model_name := [], transcribe_btn_enabled := False\<rparr>,
     (UnloadBegin # (if progress_api h then [ClearProgressCallback] else []) @
      (if first_param_cuda h = Some True then [MoveToCpu] else []) @
      map (\<lambda>(name, m). SetAttrNone name) (submodules h) @ [DropModel]) @
     concat (map (\<lambda>(name, m). recursive_delete [name] m) (submodules h)) @
     ((if model_kwargs w \<noteq> None then [ClearKwargs] else []) @ collect_garbage cuda @ [UnloadDone]))"
  using assms
  by (auto simp: unload_model_def unload_raises_def submodules_def Let_def split: option.splits)

lemma unload_fails:
  assumes "model w = Some h" "unload_raises h"
  shows "unload_model cuda w =
    (w\<lparr>model := Some (if progress_api h then h\<lparr>progress_callback := False\<rparr> else h)\<rparr>,
     UnloadBegin # (if progress_api h then [ClearProgressCallback] else []) @
     (if first_param_cuda h = None then [UnloadFailed StopIteration]
      else [MoveToCpu, UnloadFailed (the (to_cpu_error h))]))"
  using assms
  by (auto simp: unload_model_def unload_raises_def Let_def split: option.splits)

lemma unload_empty: "model w = None \<Longrightarrow> unload_model cuda w = (w, [])"
  by (simp add: unload_model_def)

lemma unload_effect:
  assumes "e \<in> set (snd (unload_model cuda w))"
  shows "(\<forall>p d. e \<noteq> StartWorker p d) \<and> e \<noteq> InstallModel"
proof (cases "model w")
  case None
  with assms show ?thesis by (simp add: unload_empty)
next
  case (Some h)
  show ?thesis
  proof (cases "unload_raises h")
    case True
    with assms Some show ?thesis by (auto simp: unload_fails split: if_splits)
  next
    case False
    have "node_of x \<noteq> None"
      if "x \<in> set (concat (map (\<lambda>(name, m). recursive_delete [name] m) (submodules h)))" for x
      using that by (auto dest: walk_nodes(1))
    then have "(\<forall>p d. x \<noteq> StartWorker p d) \<and> x \<noteq> InstallModel"
      if "x \<in> set (concat (map (\<lambda>(name, m). recursive_delete [name] m) (submodules h)))" for x
      using that by (fastforce simp: node_of_def)
    with assms Some False show ?thesis
      by (auto simp: unload_completes collect_garbage_def split: if_splits)
  qed
qed

lemma started_empty: "(\<forall>e \<in> set es. \<forall>p d. e \<noteq> StartWorker p d) \<Longrightarrow> started es = []"
proof (induction es)
  case Nil
  then show ?case by (simp add: started_def)
next
  case (Cons e es)
  then have "started es = []" by simp
  moreover from Cons.prems have "(case e of StartWorker p d \<Rightarrow> [(p, d)] | _ \<Rightarrow> []) = []"
    by (cases e) simp_all
  ultimately show ?case by (simp add: started_def)
qed

lemma started_unload: "started (snd (unload_model cuda w)) = []"
  by (rule started_empty) (simp add: unload_effect)

lemma started_append: "started (xs @ ys) = started xs @ started ys"
  by (simp add: started_def)

lemma load_model_accepted:
  assumes "path_label req \<noteq> no_model_dir" "dir_exists req" "\<not> (device_combo req = GpuChoice \<and> \<not> cuda)"
  shows "load_model cuda req w =
    ((fst (if model w \<noteq> None then unload_model cuda w else (w, [])))
       \<lparr>load_btn_enabled := False,
        load_workers := load_workers (fst (if model w \<noteq> None then unload_model cuda w else (w, []))) + 1\<rparr>,
     snd (if model w \<noteq> None then unload_model cuda w else (w, [])) @
     [StartWorker (path_label req)
        (case device_combo req of AutoChoice \<Rightarrow> if cuda then Cuda0 else Cpu
         | CpuChoice \<Rightarrow> Cpu | GpuChoice \<Rightarrow> Cuda0)])"
  using assms by (auto simp: load_model_def Let_def split: prod.splits)

subsection \<open>The device of a load request\<close>

text \<open>
  Claim C6. For a load request on a chosen, existing directory: \<open>auto\<close> starts the
  loading thread on the accelerator when one is available and on the cpu otherwise; an
  explicit cpu request starts it on the cpu; an explicit accelerator request starts it on
  the accelerator when one is available, and otherwise is answered by the warning that
  names the missing accelerator, with the window unchanged: nothing is unloaded and no
  thread is started.
\<close>

theorem device_resolution:
  assumes "path_label req \<noteq> no_model_dir" "dir_exists req"
  shows "(device_combo req = AutoChoice \<longrightarrow>
            started (snd (load_model cuda req w)) = [(path_label req, if cuda then Cuda0 else Cpu)]) \<and>
         (device_combo req = CpuChoice \<longrightarrow>
            started (snd (load_model cuda req w)) = [(path_label req, Cpu)]) \<and>
         (device_combo req = GpuChoice \<and> cuda \<longrightarrow>
            started (snd (load_model cuda req w)) = [(path_label req, Cuda0)]) \<and>
         (device_combo req = GpuChoice \<and> \<not> cuda \<longrightarrow>
            load_model cuda req w = (w, [ShowWarning CudaUnavailable]))"
proof -
  have "started (snd (if model w \<noteq> None then unload_model cuda w else (w, []))) = []"
    by (simp add: started_unload) (simp add: started_def)
  moreover have "started [StartWorker p d] = [(p, d)]" for p d
    by (simp add: started_def)
  moreover have "device_combo req = GpuChoice \<and> \<not> cuda \<longrightarrow>
            load_model cuda req w = (w, [ShowWarning CudaUnavailable])"
    using assms by (simp add: load_model_def)
  ultimately show ?thesis
    using assms by (auto simp: load_model_accepted started_append)
qed

lemma good_load_simps:
  "path_label (good_load c) = [100]" "dir_exists (good_load c)" "device_combo (good_load c) = c"
  "[100] \<noteq> no_model_dir"
  by (simp_all add: good_load_def no_model_dir_def)

text \<open>The five cases, on the window as it starts.\<close>

theorem device_resolution_witness:
  "started (snd (load_model False (good_load AutoChoice) initial)) = [([100], Cpu)] \<and>
   started (snd (load_model True (good_load AutoChoice) initial)) = [([100], Cuda0)] \<and>
   started (snd (load_model True (good_load CpuChoice) initial)) = [([100], Cpu)] \<and>
   started (snd (load_model True (good_load GpuChoice) initial)) = [([100], Cuda0)] \<and>
   load_model False (good_load GpuChoice) initial = (initial, [ShowWarning CudaUnavailable])"
  using device_resolution [of "good_load AutoChoice" False initial]
    device_resolution [of "good_load AutoChoice" True initial]
    device_resolution [of "good_load CpuChoice" True initial]
    device_resolution [of "good_load GpuChoice" True initial]
    device_resolution [of "good_load GpuChoice" False initial]
  by (simp add: good_load_simps)

subsection \<open>Three teardowns\<close>


lemma stuck_teardown:
  "unload_model True (ready stuck_model) =
    ((ready stuck_model)\<lparr>model := Some (stuck_model\<lparr>progress_callback := False\<rparr>)\<rparr>,
     [UnloadBegin, ClearProgressCallback, MoveToCpu, UnloadFailed RuntimeError])"
  by (simp add: unload_model_def ready_def stuck_model_def small_model_def)

lemma broken_teardown:
  "snd (unload_model False (ready broken_model)) =
     [UnloadBegin, ClearProgressCallback, SetAttrNone ''audio_encoder'',
      SetAttrNone ''audio_adaptor'', SetAttrNone ''llm'', DropModel,
      CallDelete [''audio_encoder''], CallDelete [''audio_encoder'', ''conv''],
      PopParameter [''audio_encoder'', ''conv''] ''weight'',
      ReturnDelete [''audio_encoder'', ''conv''],
      PopModule [''audio_encoder''] ''conv'',
      DeleteFailed [''audio_encoder''] AttributeError,
      CallDelete [''audio_adaptor''], ReturnDelete [''audio_adaptor''],
      ClearKwargs, GcCollect, GcCollect, UnloadDone]"
  by (simp add: unload_model_def ready_def broken_model_def small_model_def submodules_def conv_def
      collect_garbage_def release_parameters_def release_buffers_def)

lemma child_called:
  "(name, Some c) \<in> set cs \<Longrightarrow> CallDelete (p @ [name]) \<in> set (delete_children p cs)"
proof (induction cs)
  case Nil
  then show ?case by simp
next
  case (Cons x cs)
  obtain n m where x: "x = (n, m)" by (cases x)
  show ?case
  proof (cases m)
    case None
    with Cons x show ?thesis by auto
  next
    case (Some child)
    with Cons x show ?thesis by (auto simp: call_first)
  qed
qed

lemma failed_last:
  "f \<noteq> None \<Longrightarrow> last (recursive_delete p (Some (Module f cs ps bs))) = DeleteFailed p AttributeError"
proof -
  assume "f \<noteq> None"
  then obtain t where "f = Some t" by auto
  then show ?thesis by (cases t) simp_all
qed

subsection \<open>Exceptions during the teardown\<close>

text \<open>
  Claim C2, as stated, fails: when the migration to host memory raises, the teardown
  does not go on with its remaining steps. The exception is logged and the call returns,
  with the model and its arguments still in the window and no sub-module released.
\<close>

theorem abandoned_teardown_counterexample:
  "snd (unload_model True (ready stuck_model)) =
     [UnloadBegin, ClearProgressCallback, MoveToCpu, UnloadFailed RuntimeError] \<and>
   model (fst (unload_model True (ready stuck_model))) \<noteq> None \<and>
   model_kwargs (fst (unload_model True (ready stuck_model))) \<noteq> None"
  by (simp add: stuck_teardown) (simp add: ready_def)

text \<open>
  Claim C2, amended. No exception leaves \<open>unload_model\<close>: what is raised is logged, and the
  call returns. An exception in one of the top-level steps (reading the first parameter,
  moving the model to host memory) ends the teardown there: the model stays in the
  window and no sub-module is entered. Without such an exception the teardown runs to
  its end, and every sub-module present is entered, whatever is raised inside another.
  An exception inside the walk of a node is logged by that call and ends it; if it is
  raised after the table of children has been read, every child has been entered.
\<close>

theorem teardown_failures:
  assumes "model w = Some h"
  shows "(unload_raises h \<longrightarrow>
            model (fst (unload_model cuda w)) \<noteq> None \<and>
            (\<exists>e. last (snd (unload_model cuda w)) = UnloadFailed e) \<and>
            DropModel \<notin> set (snd (unload_model cuda w)) \<and>
            (\<forall>q. CallDelete q \<notin> set (snd (unload_model cuda w)))) \<and>
         (\<not> unload_raises h \<longrightarrow>
            model (fst (unload_model cuda w)) = None \<and>
            last (snd (unload_model cuda w)) = UnloadDone \<and>
            (\<forall>(name, m) \<in> set (submodules h).
               m \<noteq> None \<longrightarrow> CallDelete [name] \<in> set (snd (unload_model cuda w)))) \<and>
         (f \<noteq> None \<longrightarrow>
            last (recursive_delete p (Some (Module f cs ps bs))) = DeleteFailed p AttributeError) \<and>
         (f \<noteq> Some Modules \<longrightarrow>
            (\<forall>(name, c) \<in> set cs.
               c \<noteq> None \<longrightarrow> CallDelete (p @ [name]) \<in> set (recursive_delete p (Some (Module f cs ps bs)))))"
proof -
  have a: "model (fst (unload_model cuda w)) \<noteq> None \<and>
            (\<exists>e. last (snd (unload_model cuda w)) = UnloadFailed e) \<and>
            DropModel \<notin> set (snd (unload_model cuda w)) \<and>
            (\<forall>q. CallDelete q \<notin> set (snd (unload_model cuda w)))" if "unload_raises h"
    using assms that by (simp add: unload_fails)
  have b1: "model (fst (unload_model cuda w)) = None \<and> last (snd (unload_model cuda w)) = UnloadDone"
    if "\<not> unload_raises h"
    using assms that by (simp add: unload_completes)
  have b2: "CallDelete [name] \<in> set (snd (unload_model cuda w))"
    if "\<not> unload_raises h" "(name, m) \<in> set (submodules h)" "m \<noteq> None" for name m
  proof -
    from that(3) obtain x where "m = Some x" by auto
    then have "CallDelete [name] \<in> set (recursive_delete [name] m)" by (simp add: call_first)
    with that(2) have "CallDelete [name] \<in>
        set (concat (map (\<lambda>(name, m). recursive_delete [name] m) (submodules h)))"
      by force
    with assms that(1) show ?thesis by (simp add: unload_completes)
  qed
  have c: "f \<noteq> None \<longrightarrow>
            last (recursive_delete p (Some (Module f cs ps bs))) = DeleteFailed p AttributeError"
    by (rule impI) (rule failed_last)
  have d: "CallDelete (p @ [name]) \<in> set (recursive_delete p (Some (Module f cs ps bs)))"
    if "f \<noteq> Some Modules" "(name, c) \<in> set cs" "c \<noteq> None" for name c
  proof -
    from that(3) obtain x where "c = Some x" by auto
    with that(2) have "CallDelete (p @ [name]) \<in> set (delete_children p cs)"
      by (simp add: child_called)
    with that(1) show ?thesis by simp
  qed
  from a b1 b2 c d show ?thesis by blast
qed

text \<open>
  The model whose migration fails, and the model whose encoder cannot read its
  parameters: its child and the adaptor after it are entered all the same.
\<close>

theorem teardown_failures_witness:
  "model (fst (unload_model True (ready stuck_model))) \<noteq> None \<and>
   DropModel \<notin> set (snd (unload_model True (ready stuck_model))) \<and>
   model (fst (unload_model False (ready broken_model))) = None \<and>
   last (snd (unload_model False (ready broken_model))) = UnloadDone \<and>
   CallDelete [''audio_adaptor''] \<in> set (snd (unload_model False (ready broken_model))) \<and>
   last (recursive_delete [''audio_encoder'']
          (Some (Module (Some Parameters) [(''conv'', Some conv)] [(''scale'', Some Tensor)] []))) =
     DeleteFailed [''audio_encoder''] AttributeError \<and>
   CallDelete [''audio_encoder'', ''conv''] \<in> set (recursive_delete [''audio_encoder'']
          (Some (Module (Some Parameters) [(''conv'', Some conv)] [(''scale'', Some Tensor)] [])))"
proof -
  have s: "model (ready stuck_model) = Some stuck_model" "unload_raises stuck_model"
    by (simp_all add: ready_def stuck_model_def unload_raises_def)
  have b: "model (ready broken_model) = Some broken_model" "\<not> unload_raises broken_model"
    "(''audio_adaptor'', Some Object) \<in> set (submodules broken_model)"
    by (simp_all add: ready_def broken_model_def small_model_def unload_raises_def submodules_def)
  from teardown_failures [OF s(1), of True] s(2)
  have 1: "model (fst (unload_model True (ready stuck_model))) \<noteq> None \<and>
   DropModel \<notin> set (snd (unload_model True (ready stuck_model)))" by blast
  from teardown_failures [OF b(1), of False "Some Parameters"
      "[''audio_encoder'']" "[(''conv'', Some conv)]" "[(''scale'', Some Tensor)]" "[]"] b(2) b(3)
  have 2: "model (fst (unload_model False (ready broken_model))) = None \<and>
   last (snd (unload_model False (ready broken_model))) = UnloadDone \<and>
   CallDelete [''audio_adaptor''] \<in> set (snd (unload_model False (ready broken_model))) \<and>
   last (recursive_delete [''audio_encoder'']
          (Some (Module (Some Parameters) [(''conv'', Some conv)] [(''scale'', Some Tensor)] []))) =
     DeleteFailed [''audio_encoder''] AttributeError \<and>
   CallDelete [''audio_encoder'', ''conv''] \<in> set (recursive_delete [''audio_encoder'']
          (Some (Module (Some Parameters) [(''conv'', Some conv)] [(''scale'', Some Tensor)] [])))"
    by fastforce
  from 1 2 show ?thesis by blast
qed

subsection \<open>The order of the walk\<close>


lemma precedes_after_prefix:
  "a \<in> set xs \<Longrightarrow> b \<notin> set xs \<Longrightarrow> b \<in> set ys \<Longrightarrow> precedes a b (xs @ ys)"
  by (simp add: precedes_append2)






section \<open>Properties of the window\<close>

subsection \<open>Unloading before installing\<close>

lemma unload_no_install:
  "InstallModel \<notin> set (snd (unload_model cuda w))"
  "StartWorker p d \<notin> set (snd (unload_model cuda w))"
  using unload_effect [of InstallModel cuda w] unload_effect [of "StartWorker p d" cuda w] by auto

lemma unload_done: "model w = Some h \<Longrightarrow> \<not> unload_raises h \<Longrightarrow> UnloadDone \<in> set (snd (unload_model cuda w))"
  by (simp add: unload_completes)

lemma model_switch: "model (switch_to_transcription_page w) = model w"
  "model (update_model_status name w) = model w"
  by (simp_all add: switch_to_transcription_page_def update_model_status_def)

lemma on_model_loaded_unfold:
  "on_model_loaded cuda m kw name w =
     (if m \<noteq> None
      then (switch_to_transcription_page (update_model_status name
              ((fst (if model w \<noteq> None then unload_model cuda w else (w, [])))
                 \<lparr>model := m, model_kwargs := kw, current_model_name := name\<rparr>)),
            snd (if model w \<noteq> None then unload_model cuda w else (w, [])) @
            InstallModel # GcCollect # (if cuda then [EmptyCache] else []))
      else ((fst (if model w \<noteq> None then unload_model cuda w else (w, [])))
                 \<lparr>model := m, model_kwargs := kw, current_model_name := name\<rparr>,
            snd (if model w \<noteq> None then unload_model cuda w else (w, [])) @ [InstallModel]))"
  by (simp add: on_model_loaded_def Let_def split: prod.splits)

text \<open>
  Claim C1, as stated, fails: a window that holds a model whose migration to host memory
  raises is reached by loading that model; a load request on it starts the loading
  thread with the old model still in the window, its teardown given up at the failed
  step, and the model that arrives is installed over it without a finished teardown.
\<close>

theorem install_over_stuck_counterexample:
  "run True [ClickLoad (good_load GpuChoice), LoadFinished (Some (stuck_model, [])) True LoadSucceeded [109]] =
     ready stuck_model \<and>
   model (fst (load_model True (good_load CpuChoice) (ready stuck_model))) \<noteq> None \<and>
   snd (load_model True (good_load CpuChoice) (ready stuck_model)) =
     [UnloadBegin, ClearProgressCallback, MoveToCpu, UnloadFailed RuntimeError, StartWorker [100] Cpu] \<and>
   model (fst (on_model_loaded True (Some small_model) (Some []) [109] (ready stuck_model))) = Some small_model \<and>
   snd (on_model_loaded True (Some small_model) (Some []) [109] (ready stuck_model)) =
     [UnloadBegin, ClearProgressCallback, MoveToCpu, UnloadFailed RuntimeError,
      InstallModel, GcCollect, EmptyCache]"
proof -
  have "run True [ClickLoad (good_load GpuChoice), LoadFinished (Some (stuck_model, [])) True LoadSucceeded [109]] =
     ready stuck_model"
    by (simp add: run_def step_def initial_def load_model_def good_load_simps good_load_def
        model_loaded_callback_def on_model_loaded_def switch_to_transcription_page_def
        update_model_status_def ready_def)
  moreover have "model (ready stuck_model) \<noteq> None" by (simp add: ready_def)
  ultimately show ?thesis
    by (simp add: load_model_accepted good_load_simps stuck_teardown on_model_loaded_unfold model_switch)
qed

text \<open>
  Claim C1, amended. The window holds one model or none. When it holds a model whose
  teardown raises in neither of its top-level steps, an accepted load request runs the
  teardown to its end before it starts the loading thread, and leaves the window without
  a model; and the handler of the loaded model runs the teardown of a model still held to
  its end before it installs the new one.
\<close>

theorem unload_before_install:
  assumes "model w = Some h" "\<not> unload_raises h"
  shows "(path_label req \<noteq> no_model_dir \<and> dir_exists req \<and> \<not> (device_combo req = GpuChoice \<and> \<not> cuda) \<longrightarrow>
            model (fst (load_model cuda req w)) = None \<and>
            started (snd (load_model cuda req w)) \<noteq> [] \<and>
            (\<forall>p d. StartWorker p d \<in> set (snd (load_model cuda req w)) \<longrightarrow>
               precedes UnloadDone (StartWorker p d) (snd (load_model cuda req w)))) \<and>
         model (fst (on_model_loaded cuda m kw name w)) = m \<and>
         precedes UnloadDone InstallModel (snd (on_model_loaded cuda m kw name w))"
proof -
  from assms have w: "model w \<noteq> None" by simp
  have fin: "UnloadDone \<in> set (snd (unload_model cuda w))"
    using assms by (rule unload_done)
  have gone: "model (fst (unload_model cuda w)) = None"
    using assms by (simp add: unload_completes)
  have a: "model (fst (load_model cuda req w)) = None \<and>
            started (snd (load_model cuda req w)) \<noteq> [] \<and>
            (\<forall>p d. StartWorker p d \<in> set (snd (load_model cuda req w)) \<longrightarrow>
               precedes UnloadDone (StartWorker p d) (snd (load_model cuda req w)))"
    if ok: "path_label req \<noteq> no_model_dir" "dir_exists req" "\<not> (device_combo req = GpuChoice \<and> \<not> cuda)"
  proof -
    note eq = load_model_accepted [OF ok, of w]
    have 1: "model (fst (load_model cuda req w)) = None"
      using w gone by (simp add: eq)
    have 2: "started (snd (load_model cuda req w)) \<noteq> []"
      using w by (simp add: eq started_append started_unload) (simp add: started_def)
    have 3: "precedes UnloadDone (StartWorker p d) (snd (load_model cuda req w))"
      if "StartWorker p d \<in> set (snd (load_model cuda req w))" for p d
    proof -
      from that w have "StartWorker p d \<in> set [StartWorker (path_label req)
          (case device_combo req of AutoChoice \<Rightarrow> if cuda then Cuda0 else Cpu
           | CpuChoice \<Rightarrow> Cpu | GpuChoice \<Rightarrow> Cuda0)]"
        by (simp add: eq unload_no_install)
      with fin unload_no_install(2) [of p d cuda w]
      have "precedes UnloadDone (StartWorker p d) (snd (unload_model cuda w) @ [StartWorker (path_label req)
          (case device_combo req of AutoChoice \<Rightarrow> if cuda then Cuda0 else Cpu
           | CpuChoice \<Rightarrow> Cpu | GpuChoice \<Rightarrow> Cuda0)])"
        by (rule precedes_after_prefix)
      with w show ?thesis by (simp add: eq)
    qed
    from 1 2 3 show ?thesis by blast
  qed
  have b: "model (fst (on_model_loaded cuda m kw name w)) = m"
    by (simp add: on_model_loaded_unfold model_switch)
  have c: "precedes UnloadDone InstallModel (snd (on_model_loaded cuda m kw name w))"
  proof -
    have "precedes UnloadDone InstallModel (snd (unload_model cuda w) @ InstallModel # rest)" for rest
      using fin unload_no_install(1) by (rule precedes_after_prefix) simp
    with w show ?thesis by (simp add: on_model_loaded_unfold)
  qed
  from a b c show ?thesis by blast
qed

text \<open>A load request and an arriving model on the window that holds \<open>small_model\<close>.\<close>

theorem unload_before_install_witness:
  "model (fst (load_model False (good_load CpuChoice) (ready small_model))) = None \<and>
   precedes UnloadDone (StartWorker [100] Cpu) (snd (load_model False (good_load CpuChoice) (ready small_model))) \<and>
   model (fst (on_model_loaded False (Some broken_model) (Some []) [109] (ready small_model))) =
     Some broken_model \<and>
   precedes UnloadDone InstallModel
     (snd (on_model_loaded False (Some broken_model) (Some []) [109] (ready small_model)))"
proof -
  have h: "model (ready small_model) = Some small_model" "\<not> unload_raises small_model"
    by (simp_all add: ready_def small_model_def unload_raises_def)
  have "StartWorker [100] Cpu \<in> set (snd (load_model False (good_load CpuChoice) (ready small_model)))"
    by (simp add: load_model_accepted good_load_simps)
  with unload_before_install [OF h, of "good_load CpuChoice" False "Some broken_model" "Some []" "[109]"]
  show ?thesis by (simp add: good_load_simps)
qed

subsection \<open>Requests while a task is running\<close>


















end
